theory Spec2Isabelle
  imports Complex_Main
begin

section \<open>The PROSPECT leaf optical properties model (prospectall.py)\<close>

text \<open>
  The module computes leaf reflectance and transmittance on the wavelength grid
  400..2500 nm with numpy arrays of double precision numbers.  The embedding
  idealises a double as a \<^typ>\<open>real\<close>: rounding is not modelled, and where numpy would
  produce \<open>nan\<close> or \<open>inf\<close> (division by zero, logarithm or square root of a negative
  number) the model has the value of the total HOL function.  A one-dimensional
  numpy array is a list.  \<open>scipy.special.expi\<close> is a library function outside the
  repository and is a parameter \<open>expi\<close> of every function that uses it; the two
  coefficient tables are read from data files at import time and are a parameter too.
\<close>

subsection \<open>Errors and strings\<close>

datatype error = ValueError string

text \<open>\<open>str.upper()\<close> on the characters of a \<^typ>\<open>string\<close>: the letters a..z are
  moved to A..Z, every other character stays.  (Python also maps letters outside
  ASCII, to upper case letters outside ASCII or to several letters; none of them is
  mapped to \<open>D\<close>, so the comparison with \<open>"D"\<close> is the same.)\<close>

definition upper_char :: "char \<Rightarrow> char" where
  "upper_char c =
     (let n = (of_char c :: nat) in if 97 \<le> n \<and> n \<le> 122 then char_of (n - 32) else c)"

definition upper :: "string \<Rightarrow> string" where
  "upper s = map upper_char s"

subsection \<open>numpy on lists\<close>

definition vec :: "nat \<Rightarrow> (nat \<Rightarrow> 'a) \<Rightarrow> 'a list" where
  "vec n f = map f [0..<n]"

definition arange :: "nat \<Rightarrow> nat \<Rightarrow> int list" where
  "arange lo hi = map int [lo..<hi]"

definition ones_like :: "real list \<Rightarrow> real list" where
  "ones_like xs = map (\<lambda>_. 1) xs"

definition zeros_like :: "real list \<Rightarrow> real list" where
  "zeros_like xs = map (\<lambda>_. 0) xs"

definition deg2rad :: "real \<Rightarrow> real" where
  "deg2rad x = x * (pi / 180)"

text \<open>\<open>np.power\<close> on doubles follows C's \<open>pow\<close>: the exponent 0 gives 1 for every
  base, a negative base is raised to an integral exponent only.\<close>

definition np_power :: "real \<Rightarrow> real \<Rightarrow> real" where
  "np_power x y =
     (if y = 0 then 1
      else if 0 \<le> x then x powr y
      else if y = of_int \<lfloor>y\<rfloor> then x powi \<lfloor>y\<rfloor>
      else x powr y)"

text \<open>Boolean mask indexing.  \<open>mask_get xs j\<close> is the expression \<open>xs[j]\<close>, the elements
  of \<open>xs\<close> at the positions where \<open>j\<close> holds, in order.  \<open>mask_set xs j vs\<close> is the array
  \<open>xs\<close> after the statement \<open>xs[j] = vs\<close>, which stores the elements of \<open>vs\<close>, in order,
  at the positions where \<open>j\<close> holds.  (numpy raises when \<open>j\<close> and \<open>xs\<close> differ in length,
  or \<open>vs\<close> has not one element for each position; the module never does that.)\<close>

fun mask_get :: "'a list \<Rightarrow> bool list \<Rightarrow> 'a list" where
  "mask_get (x # xs) (m # ms) = (if m then x # mask_get xs ms else mask_get xs ms)"
| "mask_get _ _ = []"

fun mask_set :: "'a list \<Rightarrow> bool list \<Rightarrow> 'a list \<Rightarrow> 'a list" where
  "mask_set (x # xs) (True # ms) (v # vs) = v # mask_set xs ms vs"
| "mask_set (x # xs) (False # ms) vs = x # mask_set xs ms vs"
| "mask_set xs _ _ = xs"

subsection \<open>calctav\<close>

text \<open>Every operation of \<open>calctav\<close> and \<open>refl_trans_one_layer\<close> is an elementwise
  numpy operation with scalars broadcast, so the value at a wavelength depends on the
  arguments at that wavelength only.  Both are given for one wavelength; on arrays they
  are applied index by index (\<open>refl_trans_one_layer_arr\<close>).\<close>

definition calctav :: "real \<Rightarrow> real \<Rightarrow> real" where
  "calctav alpha nr =
     (let n2 = nr * nr;
          npx = n2 + 1;
          nm = n2 - 1;
          a = (nr + 1) * (nr + 1) / 2;
          k = - (n2 - 1) * (n2 - 1) / 4;
          sa = sin (deg2rad alpha);
          b1 = (if alpha \<noteq> 90
                then sqrt ((sa * sa - npx / 2) * (sa * sa - npx / 2) + k)
                else 0);
          b2 = sa * sa - npx / 2;
          b = b1 - b2;
          b3 = b ^ 3;
          a3 = a ^ 3;
          ts = (k ^ 2 / (6 * b3) + k / b - b / 2) - (k ^ 2 / (6 * a3) + k / a - a / 2);
          tp1 = - 2 * n2 * (b - a) / (npx ^ 2);
          tp2 = - 2 * n2 * npx * ln (b / a) / (nm ^ 2);
          tp3 = n2 * (1 / b - 1 / a) / 2;
          tp4 = 16 * n2 ^ 2 * (n2 ^ 2 + 1)
                  * ln ((2 * npx * b - nm ^ 2) / (2 * npx * a - nm ^ 2))
                  / (npx ^ 3 * nm ^ 2);
          tp5 = 16 * n2 ^ 3
                  * (1 / (2 * npx * b - nm ^ 2) - 1 / (2 * npx * a - nm ^ 2))
                  / (npx ^ 3);
          tp = tp1 + tp2 + tp3 + tp4 + tp5;
          tav = (ts + tp) / (2 * sa ^ 2)
      in tav)"

subsection \<open>refl_trans_one_layer\<close>

definition refl_trans_one_layer ::
  "real \<Rightarrow> real \<Rightarrow> real \<Rightarrow> real \<times> real \<times> real \<times> real \<times> real" where
  "refl_trans_one_layer alpha nr tau =
     (let talf = calctav alpha nr;
          ralf = 1 - talf;
          t12 = calctav 90 nr;
          r12 = 1 - t12;
          t21 = t12 / (nr * nr);
          r21 = 1 - t21;
          denom = 1 - r21 * r21 * tau * tau;
          Ta = talf * tau * t21 / denom;
          Ra = ralf + r21 * tau * Ta;
          t = t12 * tau * t21 / denom;
          r = r12 + r21 * tau * t
      in (r, t, Ra, Ta, denom))"

definition refl_trans_one_layer_arr ::
  "real \<Rightarrow> real list \<Rightarrow> real list \<Rightarrow>
     real list \<times> real list \<times> real list \<times> real list \<times> real list" where
  "refl_trans_one_layer_arr alpha nr tau =
     (let n = length nr;
          layer = (\<lambda>i. refl_trans_one_layer alpha (nr ! i) (tau ! i))
      in (vec n (\<lambda>i. case layer i of (r, t, Ra, Ta, denom) \<Rightarrow> r),
          vec n (\<lambda>i. case layer i of (r, t, Ra, Ta, denom) \<Rightarrow> t),
          vec n (\<lambda>i. case layer i of (r, t, Ra, Ta, denom) \<Rightarrow> Ra),
          vec n (\<lambda>i. case layer i of (r, t, Ra, Ta, denom) \<Rightarrow> Ta),
          vec n (\<lambda>i. case layer i of (r, t, Ra, Ta, denom) \<Rightarrow> denom)))"

subsection \<open>prospectdcore\<close>

text \<open>Lines 99 to 100: the optical thickness \<open>kall\<close>.\<close>

definition prospectdcore_kall ::
  "real \<Rightarrow> real \<Rightarrow> real \<Rightarrow> real \<Rightarrow> real \<Rightarrow> real \<Rightarrow> real \<Rightarrow>
   real list \<Rightarrow> real list \<Rightarrow> real list \<Rightarrow> real list \<Rightarrow> real list \<Rightarrow> real list \<Rightarrow> real list" where
  "prospectdcore_kall N cab car cbrown cw cm ant kab kcar kbrown kw km kant =
     vec (length kab) (\<lambda>i.
       (cab * kab ! i + car * kcar ! i + ant * kant ! i + cbrown * kbrown ! i
          + cw * kw ! i + cm * km ! i) / N)"

text \<open>Lines 101 to 105: \<open>tau\<close>, written into an array of ones under the mask
  \<open>kall > 0\<close>.\<close>

definition prospectdcore_tau :: "(real \<Rightarrow> real) \<Rightarrow> real list \<Rightarrow> real list" where
  "prospectdcore_tau expi kall =
     (let j = map (\<lambda>k. k > 0) kall;
          t1 = map (\<lambda>k. (1 - k) * exp (- k)) kall;
          t2 = map (\<lambda>k. k ^ 2 * (- expi (- k))) kall;
          tau = ones_like t1
      in mask_set tau j (map2 (+) (mask_get t1 j) (mask_get t2 j)))"

text \<open>Lines 118 to 129: the Stokes equations for the next \<open>N - 1\<close> layers, normal
  case; the result is \<open>(Rsub, Tsub)\<close>.\<close>

definition prospectdcore_stokes_general ::
  "real \<Rightarrow> real list \<Rightarrow> real list \<Rightarrow> real list \<times> real list" where
  "prospectdcore_stokes_general N r t =
     (let n = length r;
          D = vec n (\<lambda>i. sqrt ((1 + r ! i + t ! i) * (1 + r ! i - t ! i)
                                 * (1 - r ! i + t ! i) * (1 - r ! i - t ! i)));
          rq = vec n (\<lambda>i. r ! i * r ! i);
          tq = vec n (\<lambda>i. t ! i * t ! i);
          a = vec n (\<lambda>i. (1 + rq ! i - tq ! i + D ! i) / (2 * r ! i));
          b = vec n (\<lambda>i. (1 - rq ! i + tq ! i + D ! i) / (2 * t ! i));
          bNm1 = vec n (\<lambda>i. np_power (b ! i) (N - 1));
          bN2 = vec n (\<lambda>i. bNm1 ! i * bNm1 ! i);
          a2 = vec n (\<lambda>i. a ! i * a ! i);
          denom = vec n (\<lambda>i. a2 ! i * bN2 ! i - 1);
          Rsub = vec n (\<lambda>i. a ! i * (bN2 ! i - 1) / denom ! i);
          Tsub = vec n (\<lambda>i. bNm1 ! i * (a2 ! i - 1) / denom ! i)
      in (Rsub, Tsub))"

text \<open>Lines 118 to 134: the normal case, and the case of zero absorption written over
  it under the mask \<open>r + t >= 1\<close>.\<close>

definition prospectdcore_stokes ::
  "real \<Rightarrow> real list \<Rightarrow> real list \<Rightarrow> real list \<times> real list" where
  "prospectdcore_stokes N r t =
     (let (Rsub, Tsub) = prospectdcore_stokes_general N r t;
          j = vec (length r) (\<lambda>i. r ! i + t ! i \<ge> 1);
          Tsub = mask_set Tsub j
                   (map (\<lambda>tj. tj / (tj + (1 - tj) * (N - 1))) (mask_get t j));
          Rsub = mask_set Rsub j (map (\<lambda>Tj. 1 - Tj) (mask_get Tsub j))
      in (Rsub, Tsub))"

text \<open>Lines 137 to 139: the top layer combined with the next \<open>N - 1\<close> layers;
  the result is \<open>(refl, tran)\<close>.\<close>

definition prospectdcore_leaf ::
  "real list \<Rightarrow> real list \<Rightarrow> real list \<Rightarrow> real list \<Rightarrow> real list \<Rightarrow> real list
     \<Rightarrow> real list \<times> real list" where
  "prospectdcore_leaf r t Ra Ta Rsub Tsub =
     (let n = length r;
          denom = vec n (\<lambda>i. 1 - Rsub ! i * r ! i);
          tran = vec n (\<lambda>i. Ta ! i * Tsub ! i / denom ! i);
          refl = vec n (\<lambda>i. Ra ! i + Ta ! i * Rsub ! i * t ! i / denom ! i)
      in (refl, tran))"

definition prospectdcore ::
  "(real \<Rightarrow> real) \<Rightarrow> real \<Rightarrow> real \<Rightarrow> real \<Rightarrow> real \<Rightarrow> real \<Rightarrow> real \<Rightarrow> real \<Rightarrow>
   real list \<Rightarrow> real list \<Rightarrow> real list \<Rightarrow> real list \<Rightarrow> real list \<Rightarrow> real list \<Rightarrow> real list \<Rightarrow>
   real \<Rightarrow> error + (int list \<times> real list \<times> real list)" where
  "prospectdcore expi N cab car cbrown cw cm ant nr kab kcar kbrown kw km kant alpha =
     (let lambdas = arange 400 2501;
          n_lambdas = length lambdas;
          n_elems_list = map length [nr, kab, kcar, kbrown, kw, km, kant]
      in if \<not> list_all (\<lambda>n_elems. n_elems = n_lambdas) n_elems_list
         then Inl (ValueError ''Leaf spectra don't have the right shape!'')
         else
           (let kall = prospectdcore_kall N cab car cbrown cw cm ant
                         kab kcar kbrown kw km kant;
                tau = prospectdcore_tau expi kall;
                (r, t, Ra, Ta, denom) = refl_trans_one_layer_arr alpha nr tau;
                (Rsub, Tsub) = prospectdcore_stokes N r t;
                (refl, tran) = prospectdcore_leaf r t Ra Ta Rsub Tsub
            in Inr (lambdas, refl, tran)))"

subsection \<open>run_prospect\<close>

text \<open>The coefficient tables bound at import time by the two \<open>np.loadtxt\<close> calls.\<close>

record tables =
  nr_5 :: "real list"
  kab_5 :: "real list"
  kcar_5 :: "real list"
  kbrown_5 :: "real list"
  kw_5 :: "real list"
  km_5 :: "real list"
  nr_d :: "real list"
  kab_d :: "real list"
  kcar_d :: "real list"
  kant_d :: "real list"
  kbrown_d :: "real list"
  kw_d :: "real list"
  km_d :: "real list"

text \<open>\<open>x if v is None else v\<close>\<close>

definition if_none :: "'a \<Rightarrow> 'a option \<Rightarrow> 'a" where
  "if_none x v = (case v of None \<Rightarrow> x | Some y \<Rightarrow> y)"

definition run_prospect ::
  "(real \<Rightarrow> real) \<Rightarrow> tables \<Rightarrow> real \<Rightarrow> real \<Rightarrow> real \<Rightarrow> real \<Rightarrow> real \<Rightarrow> real \<Rightarrow> real \<Rightarrow>
   string \<Rightarrow>
   real list option \<Rightarrow> real list option \<Rightarrow> real list option \<Rightarrow> real list option \<Rightarrow>
   real list option \<Rightarrow> real list option \<Rightarrow> real list option \<Rightarrow>
   real \<Rightarrow> error + (int list \<times> real list \<times> real list)" where
  "run_prospect expi T n cab car cbrown cw cm ant prospect_version
                nr kab kcar kbrown kw km kant alpha =
     (if prospect_version = ''5'' then
        prospectdcore expi n cab car cbrown cw cm 0
          (if_none (nr_5 T) nr)
          (if_none (kab_5 T) kab)
          (if_none (kcar_5 T) kcar)
          (if_none (kbrown_5 T) kbrown)
          (if_none (kw_5 T) kw)
          (if_none (km_5 T) km)
          (zeros_like (km_5 T))
          alpha
      else if upper prospect_version = ''D'' then
        prospectdcore expi n cab car cbrown cw cm ant
          (if_none (nr_d T) nr)
          (if_none (kab_d T) kab)
          (if_none (kcar_d T) kcar)
          (if_none (kbrown_d T) kbrown)
          (if_none (kw_d T) kw)
          (if_none (km_d T) km)
          (if_none (kant_d T) kant)
          alpha
      else Inl (ValueError ''prospect_version can only be 5 or D!''))"

section \<open>The same functions on a store\<close>

text \<open>
  numpy arrays are mutable objects passed by reference.  To see what a call writes, the
  functions are given a second time on an explicit store: a cell for every array, and
  a counter of the cells in use.  An array has an address when it is an argument of
  \<open>run_prospect\<close> or \<open>prospectdcore\<close>, a coefficient table, the result of a function
  call, or the target of an indexed assignment; an arithmetic expression of numpy
  yields a new array and writes into no existing one.  The three indexed
  assignments of \<open>prospectdcore\<close> (\<open>tau[j] = ...\<close>, \<open>Tsub[j] = ...\<close>, \<open>Rsub[j] = ...\<close>)
  are the only writes into an existing array in the module; they are \<open>store\<close>.
  \<open>calctav\<close> and \<open>refl_trans_one_layer\<close> consist of arithmetic expressions only: the
  helper reads its two argument arrays and returns five new ones.  Arrays that are only
  read within one function (\<open>kall\<close>, \<open>t1\<close>, \<open>t2\<close>, the masks, the wavelengths) are values.
\<close>

type_synonym addr = nat

record heap =
  cells :: "addr \<Rightarrow> real list"
  next_addr :: addr

definition alloc :: "real list \<Rightarrow> heap \<Rightarrow> addr \<times> heap" where
  "alloc xs h = (next_addr h, h\<lparr>cells := (cells h)(next_addr h := xs), next_addr := Suc (next_addr h)\<rparr>)"

definition store :: "addr \<Rightarrow> real list \<Rightarrow> heap \<Rightarrow> heap" where
  "store p xs h = h\<lparr>cells := (cells h)(p := xs)\<rparr>"

definition refl_trans_one_layer_h ::
  "real \<Rightarrow> addr \<Rightarrow> addr \<Rightarrow> heap \<Rightarrow> (addr \<times> addr \<times> addr \<times> addr \<times> addr) \<times> heap" where
  "refl_trans_one_layer_h alpha nr tau h =
     (let (r, t, Ra, Ta, denom) = refl_trans_one_layer_arr alpha (cells h nr) (cells h tau);
          (r, h) = alloc r h;
          (t, h) = alloc t h;
          (Ra, h) = alloc Ra h;
          (Ta, h) = alloc Ta h;
          (denom, h) = alloc denom h
      in ((r, t, Ra, Ta, denom), h))"

definition prospectdcore_h ::
  "(real \<Rightarrow> real) \<Rightarrow> real \<Rightarrow> real \<Rightarrow> real \<Rightarrow> real \<Rightarrow> real \<Rightarrow> real \<Rightarrow> real \<Rightarrow>
   addr \<Rightarrow> addr \<Rightarrow> addr \<Rightarrow> addr \<Rightarrow> addr \<Rightarrow> addr \<Rightarrow> addr \<Rightarrow>
   real \<Rightarrow> heap \<Rightarrow> (error + (int list \<times> addr \<times> addr)) \<times> heap" where
  "prospectdcore_h expi N cab car cbrown cw cm ant nr kab kcar kbrown kw km kant alpha h =
     (let lambdas = arange 400 2501;
          n_lambdas = length lambdas;
          n_elems_list = map (\<lambda>spectrum. length (cells h spectrum))
                           [nr, kab, kcar, kbrown, kw, km, kant]
      in if \<not> list_all (\<lambda>n_elems. n_elems = n_lambdas) n_elems_list
         then (Inl (ValueError ''Leaf spectra don't have the right shape!''), h)
         else
           (let kall = prospectdcore_kall N cab car cbrown cw cm ant
                         (cells h kab) (cells h kcar) (cells h kbrown)
                         (cells h kw) (cells h km) (cells h kant);
                j = map (\<lambda>k. k > 0) kall;
                t1 = map (\<lambda>k. (1 - k) * exp (- k)) kall;
                t2 = map (\<lambda>k. k ^ 2 * (- expi (- k))) kall;
                (tau, h) = alloc (ones_like t1) h;
                h = store tau (mask_set (cells h tau) j
                                 (map2 (+) (mask_get t1 j) (mask_get t2 j))) h;
                ((r, t, Ra, Ta, denom), h) = refl_trans_one_layer_h alpha nr tau h;
                (Rsub0, Tsub0) = prospectdcore_stokes_general N (cells h r) (cells h t);
                (Rsub, h) = alloc Rsub0 h;
                (Tsub, h) = alloc Tsub0 h;
                j = vec (length (cells h r)) (\<lambda>i. cells h r ! i + cells h t ! i \<ge> 1);
                h = store Tsub (mask_set (cells h Tsub) j
                                  (map (\<lambda>tj. tj / (tj + (1 - tj) * (N - 1)))
                                     (mask_get (cells h t) j))) h;
                h = store Rsub (mask_set (cells h Rsub) j
                                  (map (\<lambda>Tj. 1 - Tj) (mask_get (cells h Tsub) j))) h;
                (refl, tran) = prospectdcore_leaf (cells h r) (cells h t) (cells h Ra)
                                 (cells h Ta) (cells h Rsub) (cells h Tsub);
                (tran, h) = alloc tran h;
                (refl, h) = alloc refl h
            in (Inr (lambdas, refl, tran), h)))"

record table_addrs =
  nr_5_at :: addr
  kab_5_at :: addr
  kcar_5_at :: addr
  kbrown_5_at :: addr
  kw_5_at :: addr
  km_5_at :: addr
  nr_d_at :: addr
  kab_d_at :: addr
  kcar_d_at :: addr
  kant_d_at :: addr
  kbrown_d_at :: addr
  kw_d_at :: addr
  km_d_at :: addr

definition load_tables :: "heap \<Rightarrow> table_addrs \<Rightarrow> tables" where
  "load_tables h A =
     \<lparr> nr_5 = cells h (nr_5_at A), kab_5 = cells h (kab_5_at A), kcar_5 = cells h (kcar_5_at A),
       kbrown_5 = cells h (kbrown_5_at A), kw_5 = cells h (kw_5_at A), km_5 = cells h (km_5_at A),
       nr_d = cells h (nr_d_at A), kab_d = cells h (kab_d_at A), kcar_d = cells h (kcar_d_at A),
       kant_d = cells h (kant_d_at A), kbrown_d = cells h (kbrown_d_at A),
       kw_d = cells h (kw_d_at A), km_d = cells h (km_d_at A) \<rparr>"

definition run_prospect_h ::
  "(real \<Rightarrow> real) \<Rightarrow> table_addrs \<Rightarrow> real \<Rightarrow> real \<Rightarrow> real \<Rightarrow> real \<Rightarrow> real \<Rightarrow> real \<Rightarrow> real \<Rightarrow>
   string \<Rightarrow>
   addr option \<Rightarrow> addr option \<Rightarrow> addr option \<Rightarrow> addr option \<Rightarrow>
   addr option \<Rightarrow> addr option \<Rightarrow> addr option \<Rightarrow>
   real \<Rightarrow> heap \<Rightarrow> (error + (int list \<times> addr \<times> addr)) \<times> heap" where
  "run_prospect_h expi A n cab car cbrown cw cm ant prospect_version
                  nr kab kcar kbrown kw km kant alpha h =
     (if prospect_version = ''5'' then
        (let (zeros, h) = alloc (zeros_like (cells h (km_5_at A))) h
         in prospectdcore_h expi n cab car cbrown cw cm 0
              (if_none (nr_5_at A) nr)
              (if_none (kab_5_at A) kab)
              (if_none (kcar_5_at A) kcar)
              (if_none (kbrown_5_at A) kbrown)
              (if_none (kw_5_at A) kw)
              (if_none (km_5_at A) km)
              zeros
              alpha h)
      else if upper prospect_version = ''D'' then
        prospectdcore_h expi n cab car cbrown cw cm ant
          (if_none (nr_d_at A) nr)
          (if_none (kab_d_at A) kab)
          (if_none (kcar_d_at A) kcar)
          (if_none (kbrown_d_at A) kbrown)
          (if_none (kw_d_at A) kw)
          (if_none (km_d_at A) km)
          (if_none (kant_d_at A) kant)
          alpha h
      else (Inl (ValueError ''prospect_version can only be 5 or D!''), h))"

definition tables_allocated :: "heap \<Rightarrow> table_addrs \<Rightarrow> bool" where
  "tables_allocated h A =
     list_all (\<lambda>p. p < next_addr h)
       [nr_5_at A, kab_5_at A, kcar_5_at A, kbrown_5_at A, kw_5_at A, km_5_at A,
        nr_d_at A, kab_d_at A, kcar_d_at A, kant_d_at A, kbrown_d_at A, kw_d_at A, km_d_at A]"

definition allocated :: "heap \<Rightarrow> addr option \<Rightarrow> bool" where
  "allocated h v = (case v of None \<Rightarrow> True | Some p \<Rightarrow> p < next_addr h)"

definition deref_result ::
  "heap \<Rightarrow> error + (int list \<times> addr \<times> addr) \<Rightarrow> error + (int list \<times> real list \<times> real list)" where
  "deref_result h res =
     (case res of Inl e \<Rightarrow> Inl e | Inr (wv, rp, tp) \<Rightarrow> Inr (wv, cells h rp, cells h tp))"

definition fresh_result :: "heap \<Rightarrow> heap \<Rightarrow> error + (int list \<times> addr \<times> addr) \<Rightarrow> bool" where
  "fresh_result h h' res =
     (case res of Inl e \<Rightarrow> True
      | Inr (wv, rp, tp) \<Rightarrow>
          next_addr h \<le> rp \<and> rp < next_addr h' \<and> next_addr h \<le> tp \<and> tp < next_addr h'
          \<and> rp \<noteq> tp)"

definition unchanged :: "heap \<Rightarrow> heap \<Rightarrow> bool" where
  "unchanged h h' =
     (next_addr h \<le> next_addr h' \<and> (\<forall>p < next_addr h. cells h' p = cells h p))"


section \<open>Inputs for the examples, and the specification's closed form\<close>

subsection \<open>Concrete inputs for the examples\<close>

text \<open>A total function in the place of \<open>expi\<close> and a pair of tables with 2101 rows, for
  closed examples.  The examples are about shapes and version strings and do not
  depend on the numbers.\<close>

definition expi_example :: "real \<Rightarrow> real" where
  "expi_example x = 0"

definition tables_example :: tables where
  "tables_example =
     \<lparr> nr_5 = replicate 2101 (3 / 2), kab_5 = replicate 2101 0, kcar_5 = replicate 2101 0,
       kbrown_5 = replicate 2101 0, kw_5 = replicate 2101 0, km_5 = replicate 2101 0,
       nr_d = replicate 2101 (3 / 2), kab_d = replicate 2101 0, kcar_d = replicate 2101 0,
       kant_d = replicate 2101 0, kbrown_d = replicate 2101 0, kw_d = replicate 2101 0,
       km_d = replicate 2101 0 \<rparr>"

text \<open>A store holding the thirteen table columns at the addresses 0 to 12.\<close>

definition heap_example :: heap where
  "heap_example =
     \<lparr> cells = (\<lambda>p. if p = 0 \<or> p = 6 then replicate 2101 (3 / 2)
                    else if p < 13 then replicate 2101 0 else []),
       next_addr = 13 \<rparr>"

definition table_addrs_example :: table_addrs where
  "table_addrs_example =
     \<lparr> nr_5_at = 0, kab_5_at = 1, kcar_5_at = 2, kbrown_5_at = 3, kw_5_at = 4, km_5_at = 5,
       nr_d_at = 6, kab_d_at = 7, kcar_d_at = 8, kant_d_at = 9, kbrown_d_at = 10,
       kw_d_at = 11, km_d_at = 12 \<rparr>"

text \<open>The five arrays that \<open>refl_trans_one_layer\<close> returns inside one call of
  \<open>prospectdcore\<close>.\<close>

definition layer_example ::
  "real list \<times> real list \<times> real list \<times> real list \<times> real list" where
  "layer_example =
     refl_trans_one_layer_arr 40 (replicate 2101 (3 / 2))
       (prospectdcore_tau expi_example
          (prospectdcore_kall 3 1 0 0 0 0 0 (2 # replicate 2100 0) (replicate 2101 0)
             (replicate 2101 0) (replicate 2101 0) (replicate 2101 0) (replicate 2101 0)))"

text \<open>An override that the caller supplies and whose length is not the length of the
  wavelength grid.\<close>

definition bad_shape :: "real list option \<Rightarrow> bool" where
  "bad_shape v = (case v of None \<Rightarrow> False | Some xs \<Rightarrow> length xs \<noteq> 2101)"

subsection \<open>The closed form of calctav, as the specification words it\<close>

text \<open>The intermediate \<open>b1\<close> as the specification gives it, and the Stern and Allen
  expression (the terms \<open>ts\<close> and \<open>tp1\<close> to \<open>tp5\<close>, combined as
  \<open>(ts + tp) / (2 sin\<^sup>2 alpha)\<close>) as a function of \<open>sin alpha\<close>, the refractive index and
  \<open>b1\<close>, written with powers of \<open>nr\<close>.  They are compared with \<open>calctav\<close> below.\<close>

definition calctav_b1_spec :: "real \<Rightarrow> real \<Rightarrow> real" where
  "calctav_b1_spec alpha nr =
     (if alpha = 90 then 0
      else sqrt (((sin (deg2rad alpha))\<^sup>2 - (nr\<^sup>2 + 1) / 2)\<^sup>2 + (- ((nr\<^sup>2 - 1)\<^sup>2) / 4)))"

definition calctav_spec :: "real \<Rightarrow> real \<Rightarrow> real \<Rightarrow> real" where
  "calctav_spec s nr b1 =
     (let k = - ((nr\<^sup>2 - 1)\<^sup>2) / 4;
          a = (nr + 1)\<^sup>2 / 2;
          b = b1 - (s\<^sup>2 - (nr\<^sup>2 + 1) / 2);
          ts = (k\<^sup>2 / (6 * b ^ 3) + k / b - b / 2) - (k\<^sup>2 / (6 * a ^ 3) + k / a - a / 2);
          tp1 = - 2 * nr\<^sup>2 * (b - a) / (nr\<^sup>2 + 1)\<^sup>2;
          tp2 = - 2 * nr\<^sup>2 * (nr\<^sup>2 + 1) * ln (b / a) / (nr\<^sup>2 - 1)\<^sup>2;
          tp3 = nr\<^sup>2 * (1 / b - 1 / a) / 2;
          tp4 = 16 * (nr\<^sup>2)\<^sup>2 * ((nr\<^sup>2)\<^sup>2 + 1)
                  * ln ((2 * (nr\<^sup>2 + 1) * b - (nr\<^sup>2 - 1)\<^sup>2)
                          / (2 * (nr\<^sup>2 + 1) * a - (nr\<^sup>2 - 1)\<^sup>2))
                  / ((nr\<^sup>2 + 1) ^ 3 * (nr\<^sup>2 - 1)\<^sup>2);
          tp5 = 16 * (nr\<^sup>2) ^ 3
                  * (1 / (2 * (nr\<^sup>2 + 1) * b - (nr\<^sup>2 - 1)\<^sup>2)
                       - 1 / (2 * (nr\<^sup>2 + 1) * a - (nr\<^sup>2 - 1)\<^sup>2))
                  / (nr\<^sup>2 + 1) ^ 3
      in (ts + (tp1 + tp2 + tp3 + tp4 + tp5)) / (2 * s\<^sup>2))"


section \<open>Basic facts\<close>

lemma length_vec [simp]: "length (vec n f) = n"
  by (simp add: vec_def)

lemma nth_vec [simp]: "i < n \<Longrightarrow> vec n f ! i = f i"
  by (simp add: vec_def)

lemma length_arange [simp]: "length (arange lo hi) = hi - lo"
  by (simp add: arange_def)

lemma length_ones_like [simp]: "length (ones_like xs) = length xs"
  by (simp add: ones_like_def)

lemma length_zeros_like [simp]: "length (zeros_like xs) = length xs"
  by (simp add: zeros_like_def)

lemma upper_char_D: "upper_char c = CHR ''D'' \<longleftrightarrow> c = CHR ''d'' \<or> c = CHR ''D''"
proof
  assume u: "upper_char c = CHR ''D''"
  show "c = CHR ''d'' \<or> c = CHR ''D''"
  proof (cases "97 \<le> (of_char c :: nat) \<and> (of_char c :: nat) \<le> 122")
    case True
    define n where "n = (of_char c :: nat)"
    from True have n: "97 \<le> n" "n \<le> 122" by (simp_all add: n_def)
    from u True have "(char_of (n - 32) :: char) = CHR ''D''"
      by (simp add: upper_char_def n_def)
    then have "(of_char (char_of (n - 32) :: char) :: nat) = of_char CHR ''D''"
      by simp
    then have "(n - 32) mod 256 = 68"
      by (simp add: of_char_of)
    moreover from n have "(n - 32) mod 256 = n - 32" by simp
    ultimately have "n = 100" using n by linarith
    then have "(of_char c :: nat) = of_char CHR ''d''"
      by (simp add: n_def)
    then have "c = CHR ''d''"
      by (simp only: of_char_eq_iff)
    then show ?thesis by simp
  next
    case False
    with u show ?thesis by (simp add: upper_char_def)
  qed
next
  have "(char_of (of_char CHR ''D'' :: nat) :: char) = CHR ''D''"
    by (rule char_of_char)
  then have D: "(char_of (68 :: nat) :: char) = CHR ''D''"
    by simp
  assume "c = CHR ''d'' \<or> c = CHR ''D''"
  then show "upper_char c = CHR ''D''"
    by (auto simp: upper_char_def D)
qed

lemma upper_D: "upper s = ''D'' \<longleftrightarrow> s = ''d'' \<or> s = ''D''"
proof (cases s)
  case Nil
  then show ?thesis by (simp add: upper_def)
next
  case (Cons c cs)
  then show ?thesis
    by (cases cs) (auto simp: upper_def upper_char_D)
qed

lemma prospectdcore_shape_ok:
  assumes "length nr = 2101" "length kab = 2101" "length kcar = 2101"
    "length kbrown = 2101" "length kw = 2101" "length km = 2101" "length kant = 2101"
  shows "\<exists>wv refl tran.
    prospectdcore expi N cab car cbrown cw cm ant nr kab kcar kbrown kw km kant alpha
      = Inr (wv, refl, tran)"
  using assms by (simp add: prospectdcore_def Let_def split: prod.splits)

lemma if_none_bad_shape: "bad_shape v \<Longrightarrow> length (if_none x v) \<noteq> 2101"
  by (auto simp: bad_shape_def if_none_def split: option.splits)

lemma prospectdcore_shape_err:
  assumes "length nr \<noteq> 2101 \<or> length kab \<noteq> 2101 \<or> length kcar \<noteq> 2101
    \<or> length kbrown \<noteq> 2101 \<or> length kw \<noteq> 2101 \<or> length km \<noteq> 2101
    \<or> length kant \<noteq> 2101"
  shows "prospectdcore expi N cab car cbrown cw cm ant nr kab kcar kbrown kw km kant alpha
      = Inl (ValueError ''Leaf spectra don't have the right shape!'')"
  using assms by (auto simp: prospectdcore_def Let_def)

subsection \<open>Masks and the stages of prospectdcore\<close>

lemma length_mask_set [simp]: "length (mask_set xs m vs) = length xs"
  by (induction xs m vs rule: mask_set.induct) simp_all

lemma mask_get_map: "mask_get (map f xs) m = map f (mask_get xs m)"
  by (induction xs m rule: mask_get.induct) simp_all

lemma mask_get_map2:
  "length xs = length ys \<Longrightarrow>
   mask_get (map2 f xs ys) m = map2 f (mask_get xs m) (mask_get ys m)"
proof (induction xs ys arbitrary: m rule: list_induct2)
  case Nil
  then show ?case by simp
next
  case (Cons x xs y ys)
  then show ?case by (cases m) simp_all
qed

lemma nth_mask_set_get:
  "length d = length m \<Longrightarrow> length m = length ys \<Longrightarrow> i < length d \<Longrightarrow>
   mask_set d m (mask_get ys m) ! i = (if m ! i then ys ! i else d ! i)"
proof (induction d m ys arbitrary: i rule: list_induct3)
  case Nil
  then show ?case by simp
next
  case (Cons x d b m y ys)
  then show ?case by (cases i; cases b) simp_all
qed

lemma length_prospectdcore_kall [simp]:
  "length (prospectdcore_kall N cab car cbrown cw cm ant kab kcar kbrown kw km kant)
     = length kab"
  by (simp add: prospectdcore_kall_def)

lemma length_prospectdcore_tau [simp]: "length (prospectdcore_tau expi kall) = length kall"
  by (simp add: prospectdcore_tau_def Let_def)

lemma nth_prospectdcore_tau:
  assumes "i < length kall"
  shows "prospectdcore_tau expi kall ! i =
    (if kall ! i > 0
     then (1 - kall ! i) * exp (- kall ! i) + (kall ! i) ^ 2 * (- expi (- kall ! i))
     else 1)"
proof -
  let ?j = "map (\<lambda>k. k > 0) kall"
  let ?t1 = "map (\<lambda>k. (1 - k) * exp (- k)) kall"
  let ?t2 = "map (\<lambda>k. k ^ 2 * (- expi (- k))) kall"
  have "prospectdcore_tau expi kall
      = mask_set (ones_like ?t1) ?j (mask_get (map2 (+) ?t1 ?t2) ?j)"
    by (simp add: prospectdcore_tau_def Let_def mask_get_map2)
  moreover have "mask_set (ones_like ?t1) ?j (mask_get (map2 (+) ?t1 ?t2) ?j) ! i
      = (if ?j ! i then map2 (+) ?t1 ?t2 ! i else ones_like ?t1 ! i)"
    using assms by (intro nth_mask_set_get) simp_all
  ultimately show ?thesis
    using assms by (simp add: ones_like_def)
qed

lemma length_refl_trans_one_layer_arr:
  "refl_trans_one_layer_arr alpha nr tau = (r, t, Ra, Ta, denom) \<Longrightarrow>
   length r = length nr \<and> length t = length nr \<and> length Ra = length nr
   \<and> length Ta = length nr \<and> length denom = length nr"
  by (auto simp: refl_trans_one_layer_arr_def Let_def)

lemma nth_refl_trans_one_layer_arr:
  "refl_trans_one_layer_arr alpha nr tau = (r, t, Ra, Ta, denom) \<Longrightarrow> i < length nr \<Longrightarrow>
   refl_trans_one_layer alpha (nr ! i) (tau ! i) = (r ! i, t ! i, Ra ! i, Ta ! i, denom ! i)"
  by (auto simp: refl_trans_one_layer_arr_def Let_def split: prod.splits)

lemma length_prospectdcore_stokes:
  "prospectdcore_stokes N r t = (Rsub, Tsub) \<Longrightarrow>
   length Rsub = length r \<and> length Tsub = length r"
  by (auto simp: prospectdcore_stokes_def prospectdcore_stokes_general_def Let_def)

lemma nth_prospectdcore_stokes:
  assumes st: "prospectdcore_stokes N r t = (Rsub, Tsub)"
    and len: "length t = length r" and i: "i < length r"
  defines "D \<equiv> sqrt ((1 + r ! i + t ! i) * (1 + r ! i - t ! i)
                       * (1 - r ! i + t ! i) * (1 - r ! i - t ! i))"
  defines "a \<equiv> (1 + r ! i * r ! i - t ! i * t ! i + D) / (2 * r ! i)"
  defines "b \<equiv> (1 - r ! i * r ! i + t ! i * t ! i + D) / (2 * t ! i)"
  defines "bNm1 \<equiv> np_power b (N - 1)"
  shows "Tsub ! i =
      (if r ! i + t ! i \<ge> 1 then t ! i / (t ! i + (1 - t ! i) * (N - 1))
       else bNm1 * (a * a - 1) / (a * a * (bNm1 * bNm1) - 1))"
    and "Rsub ! i =
      (if r ! i + t ! i \<ge> 1 then 1 - Tsub ! i
       else a * (bNm1 * bNm1 - 1) / (a * a * (bNm1 * bNm1) - 1))"
proof -
  let ?n = "length r"
  let ?D = "vec ?n (\<lambda>i. sqrt ((1 + r ! i + t ! i) * (1 + r ! i - t ! i)
                                 * (1 - r ! i + t ! i) * (1 - r ! i - t ! i)))"
  let ?rq = "vec ?n (\<lambda>i. r ! i * r ! i)"
  let ?tq = "vec ?n (\<lambda>i. t ! i * t ! i)"
  let ?a = "vec ?n (\<lambda>i. (1 + ?rq ! i - ?tq ! i + ?D ! i) / (2 * r ! i))"
  let ?b = "vec ?n (\<lambda>i. (1 - ?rq ! i + ?tq ! i + ?D ! i) / (2 * t ! i))"
  let ?bNm1 = "vec ?n (\<lambda>i. np_power (?b ! i) (N - 1))"
  let ?bN2 = "vec ?n (\<lambda>i. ?bNm1 ! i * ?bNm1 ! i)"
  let ?a2 = "vec ?n (\<lambda>i. ?a ! i * ?a ! i)"
  let ?denom = "vec ?n (\<lambda>i. ?a2 ! i * ?bN2 ! i - 1)"
  let ?Rsub = "vec ?n (\<lambda>i. ?a ! i * (?bN2 ! i - 1) / ?denom ! i)"
  let ?Tsub = "vec ?n (\<lambda>i. ?bNm1 ! i * (?a2 ! i - 1) / ?denom ! i)"
  let ?j = "vec ?n (\<lambda>i. r ! i + t ! i \<ge> 1)"
  let ?f = "\<lambda>tj. tj / (tj + (1 - tj) * (N - 1))"
  let ?g = "\<lambda>Tj :: real. 1 - Tj"
  from st have fs: "Rsub = fst (prospectdcore_stokes N r t)"
    "Tsub = snd (prospectdcore_stokes N r t)"
    by simp_all
  have T0: "Tsub = mask_set ?Tsub ?j (map ?f (mask_get t ?j))"
    unfolding fs prospectdcore_stokes_def prospectdcore_stokes_general_def Let_def
      prod.case snd_conv
    by (rule HOL.refl)
  have "Rsub = mask_set ?Rsub ?j
      (map ?g (mask_get (mask_set ?Tsub ?j (map ?f (mask_get t ?j))) ?j))"
    unfolding fs prospectdcore_stokes_def prospectdcore_stokes_general_def Let_def
      prod.case fst_conv
    by (rule HOL.refl)
  then have R0: "Rsub = mask_set ?Rsub ?j (map ?g (mask_get Tsub ?j))"
    by (simp only: T0 [symmetric])
  have T: "Tsub = mask_set ?Tsub ?j (mask_get (map ?f t) ?j)"
    and R: "Rsub = mask_set ?Rsub ?j (mask_get (map ?g Tsub) ?j)"
    using T0 R0 by (simp_all only: mask_get_map)
  have "Tsub ! i = (if ?j ! i then map ?f t ! i else ?Tsub ! i)"
    unfolding T using len i by (intro nth_mask_set_get) simp_all
  then show Ti: "Tsub ! i =
      (if r ! i + t ! i \<ge> 1 then t ! i / (t ! i + (1 - t ! i) * (N - 1))
       else bNm1 * (a * a - 1) / (a * a * (bNm1 * bNm1) - 1))"
    using len i by (simp add: a_def b_def D_def bNm1_def)
  have lT: "length Tsub = ?n"
    by (subst T) simp
  have "Rsub ! i = (if ?j ! i then map ?g Tsub ! i else ?Rsub ! i)"
    by (subst R) (use lT i in \<open>intro nth_mask_set_get; simp\<close>)
  then show "Rsub ! i =
      (if r ! i + t ! i \<ge> 1 then 1 - Tsub ! i
       else a * (bNm1 * bNm1 - 1) / (a * a * (bNm1 * bNm1) - 1))"
    using lT i by (simp add: a_def b_def D_def bNm1_def)
qed

lemma nth_prospectdcore_leaf:
  "prospectdcore_leaf r t Ra Ta Rsub Tsub = (rf, tr) \<Longrightarrow> i < length r \<Longrightarrow>
   tr ! i = Ta ! i * Tsub ! i / (1 - Rsub ! i * r ! i)
   \<and> rf ! i = Ra ! i + Ta ! i * Rsub ! i * t ! i / (1 - Rsub ! i * r ! i)"
  by (auto simp: prospectdcore_leaf_def Let_def)

lemma length_prospectdcore_leaf:
  "prospectdcore_leaf r t Ra Ta Rsub Tsub = (rf, tr) \<Longrightarrow>
   length rf = length r \<and> length tr = length r"
  by (auto simp: prospectdcore_leaf_def Let_def)

lemma prospectdcore_stages:
  assumes "length nr = 2101" "length kab = 2101" "length kcar = 2101"
    "length kbrown = 2101" "length kw = 2101" "length km = 2101" "length kant = 2101"
  shows "prospectdcore expi N cab car cbrown cw cm ant nr kab kcar kbrown kw km kant alpha =
    (case refl_trans_one_layer_arr alpha nr
            (prospectdcore_tau expi
              (prospectdcore_kall N cab car cbrown cw cm ant kab kcar kbrown kw km kant)) of
       (r, t, Ra, Ta, denom) \<Rightarrow>
         (case prospectdcore_stokes N r t of
            (Rsub, Tsub) \<Rightarrow>
              (case prospectdcore_leaf r t Ra Ta Rsub Tsub of
                 (rf, tr) \<Rightarrow> Inr (arange 400 2501, rf, tr))))"
  using assms by (simp add: prospectdcore_def Let_def)

section \<open>Version dispatch and shape validation\<close>

text \<open>
  C1.  \<open>run_prospect\<close> dispatches on the version string: exactly \<open>"5"\<close> takes the
  PROSPECT-5 call of \<open>prospectdcore\<close> (anthocyanin content 0, the PROSPECT-5 columns, a
  zero \<open>kant\<close>); otherwise a string whose upper case is \<open>"D"\<close>, which is \<open>"d"\<close> or \<open>"D"\<close>,
  takes the PROSPECT-D call; every other string gives the error
  \<open>prospect_version can only be 5 or D!\<close> and no result.  \<open>"d"\<close> and \<open>"D"\<close> give the same
  result, and \<open>" 5"\<close>, \<open>"5 "\<close> and \<open>"x"\<close> give the error.
\<close>

theorem run_prospect_dispatch:
  "run_prospect expi T n cab car cbrown cw cm ant v nr kab kcar kbrown kw km kant alpha =
     (if v = ''5'' then
        prospectdcore expi n cab car cbrown cw cm 0
          (if_none (nr_5 T) nr) (if_none (kab_5 T) kab) (if_none (kcar_5 T) kcar)
          (if_none (kbrown_5 T) kbrown) (if_none (kw_5 T) kw) (if_none (km_5 T) km)
          (zeros_like (km_5 T)) alpha
      else if v = ''d'' \<or> v = ''D'' then
        prospectdcore expi n cab car cbrown cw cm ant
          (if_none (nr_d T) nr) (if_none (kab_d T) kab) (if_none (kcar_d T) kcar)
          (if_none (kbrown_d T) kbrown) (if_none (kw_d T) kw) (if_none (km_d T) km)
          (if_none (kant_d T) kant) alpha
      else Inl (ValueError ''prospect_version can only be 5 or D!''))
   \<and> run_prospect expi T n cab car cbrown cw cm ant ''d'' nr kab kcar kbrown kw km kant alpha
     = run_prospect expi T n cab car cbrown cw cm ant ''D'' nr kab kcar kbrown kw km kant alpha
   \<and> run_prospect expi T n cab car cbrown cw cm ant '' 5'' nr kab kcar kbrown kw km kant alpha
     = Inl (ValueError ''prospect_version can only be 5 or D!'')
   \<and> run_prospect expi T n cab car cbrown cw cm ant ''5 '' nr kab kcar kbrown kw km kant alpha
     = Inl (ValueError ''prospect_version can only be 5 or D!'')
   \<and> run_prospect expi T n cab car cbrown cw cm ant ''x'' nr kab kcar kbrown kw km kant alpha
     = Inl (ValueError ''prospect_version can only be 5 or D!'')"
proof -
  have u: "upper ''d'' = ''D''" "upper ''D'' = ''D''"
    by (simp_all add: upper_D)
  have n: "upper '' 5'' \<noteq> ''D''" "upper ''5 '' \<noteq> ''D''" "upper ''x'' \<noteq> ''D''"
    by (simp_all add: upper_D)
  have "v \<noteq> ''5'' \<Longrightarrow> (upper v = ''D'') = (v = ''d'' \<or> v = ''D'')"
    by (simp add: upper_D)
  then show ?thesis
    by (simp add: run_prospect_def u n)
qed

text \<open>
  C2.  When one of the seven coefficient arrays given to \<open>prospectdcore\<close> has not
  exactly 2101 elements, the call gives the error
  \<open>Leaf spectra don't have the right shape!\<close>: the result is the error whatever the
  numbers are, no spectrum is computed.  A \<open>kab\<close> override of length 2100 given to
  \<open>run_prospect\<close> with a version that is accepted gives this error.
\<close>

theorem prospectdcore_shape_error:
  "(length nr \<noteq> 2101 \<or> length kab \<noteq> 2101 \<or> length kcar \<noteq> 2101
      \<or> length kbrown \<noteq> 2101 \<or> length kw \<noteq> 2101 \<or> length km \<noteq> 2101
      \<or> length kant \<noteq> 2101
    \<longrightarrow> prospectdcore expi N cab car cbrown cw cm ant nr kab kcar kbrown kw km kant alpha
          = Inl (ValueError ''Leaf spectra don't have the right shape!''))
   \<and> (length kab' = 2100 \<and> (v = ''5'' \<or> upper v = ''D'')
    \<longrightarrow> run_prospect expi T N cab car cbrown cw cm ant v
            nr' (Some kab') kcar' kbrown' kw' km' kant' alpha
          = Inl (ValueError ''Leaf spectra don't have the right shape!''))"
proof (intro conjI impI)
  assume "length nr \<noteq> 2101 \<or> length kab \<noteq> 2101 \<or> length kcar \<noteq> 2101
      \<or> length kbrown \<noteq> 2101 \<or> length kw \<noteq> 2101 \<or> length km \<noteq> 2101
      \<or> length kant \<noteq> 2101"
  then show "prospectdcore expi N cab car cbrown cw cm ant nr kab kcar kbrown kw km kant alpha
          = Inl (ValueError ''Leaf spectra don't have the right shape!'')"
    by (rule prospectdcore_shape_err)
next
  assume a: "length kab' = 2100 \<and> (v = ''5'' \<or> upper v = ''D'')"
  then have "length (if_none (kab_5 T) (Some kab')) \<noteq> 2101"
    "length (if_none (kab_d T) (Some kab')) \<noteq> 2101"
    by (simp_all add: if_none_def)
  with a show "run_prospect expi T N cab car cbrown cw cm ant v
            nr' (Some kab') kcar' kbrown' kw' km' kant' alpha
          = Inl (ValueError ''Leaf spectra don't have the right shape!'')"
    by (auto simp: run_prospect_def prospectdcore_shape_err)
qed

theorem prospectdcore_shape_error_witness:
  "length ([] :: real list) \<noteq> 2101
   \<and> prospectdcore expi_example 1 0 0 0 0 0 0
        (replicate 2101 0) [] (replicate 2101 0) (replicate 2101 0)
        (replicate 2101 0) (replicate 2101 0) (replicate 2101 0) 40
      = Inl (ValueError ''Leaf spectra don't have the right shape!'')
   \<and> length (replicate 2100 (0::real)) = 2100 \<and> upper ''D'' = ''D''
   \<and> run_prospect expi_example tables_example 1 0 0 0 0 0 0 ''D''
        None (Some (replicate 2100 0)) None None None None None 40
      = Inl (ValueError ''Leaf spectra don't have the right shape!'')"
  using prospectdcore_shape_error [of "replicate 2101 0" "[]" "replicate 2101 0"
      "replicate 2101 0" "replicate 2101 0" "replicate 2101 0" "replicate 2101 0"
      expi_example 1 0 0 0 0 0 0 40 "replicate 2100 0" "''D''" tables_example
      None None None None None None]
  by (simp add: upper_D)

text \<open>
  C3, as stated: every supplied override of the wrong length makes the call fail,
  also a supplied \<open>kant\<close> under version \<open>"5"\<close>.  This fails: the PROSPECT-5 call passes a
  zero array of the length of the table column \<open>km_5\<close> for \<open>kant\<close> and never looks at the
  caller's \<open>kant\<close>.  With tables of 2101 rows, version \<open>"5"\<close> and an empty \<open>kant\<close> the
  call does not give the shape error.
\<close>

theorem run_prospect_kant_5_counterexample:
  "bad_shape (Some []) \<and>
   run_prospect expi_example tables_example 1 0 0 0 0 0 0 ''5''
     None None None None None None (Some []) 40
     \<noteq> Inl (ValueError ''Leaf spectra don't have the right shape!'')"
proof -
  have "\<exists>wv refl tran.
    prospectdcore expi_example 1 0 0 0 0 0 0
      (replicate 2101 (3 / 2)) (replicate 2101 0) (replicate 2101 0) (replicate 2101 0)
      (replicate 2101 0) (replicate 2101 0) (zeros_like (replicate 2101 0)) 40
      = Inr (wv, refl, tran)"
    by (rule prospectdcore_shape_ok) simp_all
  then show ?thesis
    by (auto simp: run_prospect_def tables_example_def if_none_def bad_shape_def)
qed

text \<open>
  C3, amended.  Under an accepted version, a supplied override of \<open>nr\<close>, \<open>kab\<close>, \<open>kcar\<close>,
  \<open>kbrown\<close>, \<open>kw\<close> or \<open>km\<close> whose length is not 2101 gives the shape error, and so does
  a supplied \<open>kant\<close> under version D; under version \<open>"5"\<close> the result is the same for
  every \<open>kant\<close>.
\<close>

theorem run_prospect_override_shape:
  "((v = ''5'' \<or> upper v = ''D'')
      \<and> (bad_shape nr \<or> bad_shape kab \<or> bad_shape kcar \<or> bad_shape kbrown
           \<or> bad_shape kw \<or> bad_shape km \<or> (v \<noteq> ''5'' \<and> bad_shape kant))
    \<longrightarrow> run_prospect expi T n cab car cbrown cw cm ant v nr kab kcar kbrown kw km kant alpha
          = Inl (ValueError ''Leaf spectra don't have the right shape!''))
   \<and> run_prospect expi T n cab car cbrown cw cm ant ''5'' nr kab kcar kbrown kw km kant alpha
     = run_prospect expi T n cab car cbrown cw cm ant ''5'' nr kab kcar kbrown kw km kant' alpha"
proof (intro conjI impI)
  assume a: "(v = ''5'' \<or> upper v = ''D'')
      \<and> (bad_shape nr \<or> bad_shape kab \<or> bad_shape kcar \<or> bad_shape kbrown
           \<or> bad_shape kw \<or> bad_shape km \<or> (v \<noteq> ''5'' \<and> bad_shape kant))"
  show "run_prospect expi T n cab car cbrown cw cm ant v nr kab kcar kbrown kw km kant alpha
          = Inl (ValueError ''Leaf spectra don't have the right shape!'')"
  proof (cases "v = ''5''")
    case True
    with a have "length (if_none (nr_5 T) nr) \<noteq> 2101 \<or> length (if_none (kab_5 T) kab) \<noteq> 2101
      \<or> length (if_none (kcar_5 T) kcar) \<noteq> 2101 \<or> length (if_none (kbrown_5 T) kbrown) \<noteq> 2101
      \<or> length (if_none (kw_5 T) kw) \<noteq> 2101 \<or> length (if_none (km_5 T) km) \<noteq> 2101
      \<or> length (zeros_like (km_5 T)) \<noteq> 2101"
      using if_none_bad_shape by blast
    then show ?thesis
      using True by (simp add: run_prospect_def prospectdcore_shape_err)
  next
    case False
    with a have "length (if_none (nr_d T) nr) \<noteq> 2101 \<or> length (if_none (kab_d T) kab) \<noteq> 2101
      \<or> length (if_none (kcar_d T) kcar) \<noteq> 2101 \<or> length (if_none (kbrown_d T) kbrown) \<noteq> 2101
      \<or> length (if_none (kw_d T) kw) \<noteq> 2101 \<or> length (if_none (km_d T) km) \<noteq> 2101
      \<or> length (if_none (kant_d T) kant) \<noteq> 2101"
      using if_none_bad_shape by blast
    moreover from a False have "upper v = ''D''" by simp
    ultimately show ?thesis
      using False by (simp add: run_prospect_def prospectdcore_shape_err)
  qed
next
  show "run_prospect expi T n cab car cbrown cw cm ant ''5'' nr kab kcar kbrown kw km kant alpha
     = run_prospect expi T n cab car cbrown cw cm ant ''5'' nr kab kcar kbrown kw km kant' alpha"
    by (simp add: run_prospect_def)
qed

theorem run_prospect_override_shape_witness:
  "upper ''D'' = ''D'' \<and> ''D'' \<noteq> ''5'' \<and> bad_shape (Some [])
   \<and> run_prospect expi_example tables_example 1 0 0 0 0 0 0 ''D''
        None None None None None None (Some []) 40
      = Inl (ValueError ''Leaf spectra don't have the right shape!'')"
  using run_prospect_override_shape [of "''D''" None None None None None None "Some []"
      expi_example tables_example 1 0 0 0 0 0 0 40]
  by (simp add: upper_D bad_shape_def)

text \<open>
  C4.  Under version \<open>"5"\<close> the anthocyanin content plays no part: for every \<open>ant\<close> the
  result of \<open>run_prospect\<close> is the result for \<open>ant = 0\<close>, namely that of \<open>prospectdcore\<close>
  called with anthocyanin content 0 and a zero \<open>kant\<close> array.
\<close>

theorem run_prospect_5_ignores_ant:
  "run_prospect expi T n cab car cbrown cw cm ant ''5'' nr kab kcar kbrown kw km kant alpha
     = run_prospect expi T n cab car cbrown cw cm 0 ''5'' nr kab kcar kbrown kw km kant alpha
   \<and> run_prospect expi T n cab car cbrown cw cm ant ''5'' nr kab kcar kbrown kw km kant alpha
     = prospectdcore expi n cab car cbrown cw cm 0
         (if_none (nr_5 T) nr) (if_none (kab_5 T) kab) (if_none (kcar_5 T) kcar)
         (if_none (kbrown_5 T) kbrown) (if_none (kw_5 T) kw) (if_none (km_5 T) km)
         (zeros_like (km_5 T)) alpha
   \<and> zeros_like (km_5 T) = replicate (length (km_5 T)) 0"
  by (simp add: run_prospect_def zeros_like_def map_replicate_const)

section \<open>The numerical pipeline\<close>

text \<open>
  C5.  In \<open>prospectdcore\<close>, once the shapes are accepted, the optical thickness at every
  index \<open>i\<close> of the 2101 is
  \<open>kall[i] = (cab*kab[i] + car*kcar[i] + ant*kant[i] + cbrown*kbrown[i] + cw*kw[i] + cm*km[i]) / N\<close>,
  and \<open>tau\<close> is chosen index by index: where \<open>kall[i] = 0\<close> it is 1, where \<open>kall[i] > 0\<close> it
  is \<open>(1 - kall[i]) * exp (- kall[i]) + kall[i]\<^sup>2 * (- Ei (- kall[i]))\<close>
  (and it is 1 wherever \<open>kall[i] > 0\<close> fails).  The result of \<open>prospectdcore\<close> is computed
  from this \<open>tau\<close>.
\<close>

theorem prospectdcore_kall_tau:
  assumes "length nr = 2101" "length kab = 2101" "length kcar = 2101"
    "length kbrown = 2101" "length kw = 2101" "length km = 2101" "length kant = 2101"
    and "i < 2101"
  shows "(let kall = prospectdcore_kall N cab car cbrown cw cm ant kab kcar kbrown kw km kant;
              tau = prospectdcore_tau expi kall
          in kall ! i = (cab * kab ! i + car * kcar ! i + ant * kant ! i + cbrown * kbrown ! i
                          + cw * kw ! i + cm * km ! i) / N
           \<and> (kall ! i = 0 \<longrightarrow> tau ! i = 1)
           \<and> (kall ! i > 0 \<longrightarrow>
                 tau ! i = (1 - kall ! i) * exp (- kall ! i)
                             + (kall ! i)\<^sup>2 * (- expi (- kall ! i)))
           \<and> (\<not> kall ! i > 0 \<longrightarrow> tau ! i = 1)
           \<and> length kall = 2101 \<and> length tau = 2101
           \<and> prospectdcore expi N cab car cbrown cw cm ant nr kab kcar kbrown kw km kant alpha =
               (case refl_trans_one_layer_arr alpha nr tau of
                  (r, t, Ra, Ta, denom) \<Rightarrow>
                    (case prospectdcore_stokes N r t of
                       (Rsub, Tsub) \<Rightarrow>
                         (case prospectdcore_leaf r t Ra Ta Rsub Tsub of
                            (rf, tr) \<Rightarrow> Inr (arange 400 2501, rf, tr)))))"
proof -
  define kall where "kall = prospectdcore_kall N cab car cbrown cw cm ant kab kcar kbrown kw km kant"
  define tau where "tau = prospectdcore_tau expi kall"
  have k: "kall ! i = (cab * kab ! i + car * kcar ! i + ant * kant ! i + cbrown * kbrown ! i
                      + cw * kw ! i + cm * km ! i) / N"
    using assms(2,8) by (simp add: kall_def prospectdcore_kall_def)
  have lk: "length kall = 2101"
    using assms(2) by (simp add: kall_def)
  then have t: "tau ! i = (if kall ! i > 0
     then (1 - kall ! i) * exp (- kall ! i) + (kall ! i) ^ 2 * (- expi (- kall ! i))
     else 1)"
    unfolding tau_def using assms(8) by (intro nth_prospectdcore_tau) simp
  have p: "prospectdcore expi N cab car cbrown cw cm ant nr kab kcar kbrown kw km kant alpha =
        (case refl_trans_one_layer_arr alpha nr tau of
           (r, t, Ra, Ta, denom) \<Rightarrow>
             (case prospectdcore_stokes N r t of
                (Rsub, Tsub) \<Rightarrow>
                  (case prospectdcore_leaf r t Ra Ta Rsub Tsub of
                     (rf, tr) \<Rightarrow> Inr (arange 400 2501, rf, tr))))"
    unfolding tau_def kall_def using assms(1-7) by (rule prospectdcore_stages)
  have lt: "length tau = 2101"
    using lk by (simp add: tau_def)
  from k lk lt t p show ?thesis
    unfolding Let_def kall_def [symmetric] tau_def [symmetric] by simp
qed

theorem prospectdcore_kall_tau_witness:
  "length (replicate 2101 (0::real)) = 2101 \<and> length (2 # replicate 2100 (0::real)) = 2101
   \<and> (0::nat) < 2101 \<and> (1::nat) < 2101
   \<and> prospectdcore_kall 1 1 0 0 0 0 0 (2 # replicate 2100 0) (replicate 2101 0)
        (replicate 2101 0) (replicate 2101 0) (replicate 2101 0) (replicate 2101 0) ! 0 = 2
   \<and> prospectdcore_tau expi_example
        (prospectdcore_kall 1 1 0 0 0 0 0 (2 # replicate 2100 0) (replicate 2101 0)
          (replicate 2101 0) (replicate 2101 0) (replicate 2101 0) (replicate 2101 0)) ! 0
      = (1 - 2) * exp (- 2) + 2\<^sup>2 * (- expi_example (- 2))
   \<and> prospectdcore_kall 1 1 0 0 0 0 0 (2 # replicate 2100 0) (replicate 2101 0)
        (replicate 2101 0) (replicate 2101 0) (replicate 2101 0) (replicate 2101 0) ! 1 = 0
   \<and> prospectdcore_tau expi_example
        (prospectdcore_kall 1 1 0 0 0 0 0 (2 # replicate 2100 0) (replicate 2101 0)
          (replicate 2101 0) (replicate 2101 0) (replicate 2101 0) (replicate 2101 0)) ! 1
      = 1"
proof -
  have l: "length (replicate 2101 (0::real)) = 2101" "length (2 # replicate 2100 (0::real)) = 2101"
    by simp_all
  have i: "(0::nat) < 2101" "(1::nat) < 2101"
    by simp_all
  have n: "(2 # replicate 2100 (0::real)) ! 0 = 2" "(2 # replicate 2100 (0::real)) ! 1 = 0"
    by simp_all
  note a = prospectdcore_kall_tau [OF l(1) l(2) l(1) l(1) l(1) l(1) l(1) i(1),
      of 1 1 0 0 0 0 0 expi_example 40, unfolded Let_def]
  note b = prospectdcore_kall_tau [OF l(1) l(2) l(1) l(1) l(1) l(1) l(1) i(2),
      of 1 1 0 0 0 0 0 expi_example 40, unfolded Let_def]
  from a have a1: "prospectdcore_kall 1 1 0 0 0 0 0 (2 # replicate 2100 0) (replicate 2101 0)
        (replicate 2101 0) (replicate 2101 0) (replicate 2101 0) (replicate 2101 0) ! 0 = 2"
    by (simp add: n)
  from b have b1: "prospectdcore_kall 1 1 0 0 0 0 0 (2 # replicate 2100 0) (replicate 2101 0)
        (replicate 2101 0) (replicate 2101 0) (replicate 2101 0) (replicate 2101 0) ! 1 = 0"
    by (simp add: n)
  from a a1 b b1 l i show ?thesis
    by simp
qed


text \<open>
  C6.  In the Stokes stage of \<open>prospectdcore\<close>, for arrays \<open>r\<close> and \<open>t\<close> of one length and
  every index \<open>i\<close>: where \<open>r[i] + t[i] >= 1\<close> the values are the limit of no absorption,
  \<open>Tsub[i] = t[i] / (t[i] + (1 - t[i]) * (N - 1))\<close> and \<open>Rsub[i] = 1 - Tsub[i]\<close>; where
  \<open>r[i] + t[i] < 1\<close> they are the general values
  \<open>Rsub[i] = a * (bN2 - 1) / (a\<^sup>2 * bN2 - 1)\<close> and
  \<open>Tsub[i] = b^(N-1) * (a\<^sup>2 - 1) / (a\<^sup>2 * bN2 - 1)\<close>, with \<open>bN2\<close> the square of \<open>b^(N-1)\<close>,
  which is \<open>b^(2(N-1))\<close> for positive \<open>b\<close>.  When the shapes are accepted and \<open>r\<close>, \<open>t\<close>,
  \<open>Ra\<close>, \<open>Ta\<close> are the arrays that \<open>refl_trans_one_layer\<close> returns inside
  \<open>prospectdcore\<close>, they have 2101 elements and the result of \<open>prospectdcore\<close> is the
  combination of the top layer with exactly these \<open>Rsub\<close> and \<open>Tsub\<close>.  The witness is
  one call of the stage with \<open>N = 3\<close> that takes the first branch at index 0 and the
  second at index 1, and a call of \<open>prospectdcore\<close>.
\<close>

theorem prospectdcore_stokes_branches:
  assumes "prospectdcore_stokes N r t = (Rsub, Tsub)"
    and "length t = length r" and "i < length r"
  shows "(let D = sqrt ((1 + r ! i + t ! i) * (1 + r ! i - t ! i)
                         * (1 - r ! i + t ! i) * (1 - r ! i - t ! i));
              a = (1 + r ! i * r ! i - t ! i * t ! i + D) / (2 * r ! i);
              b = (1 - r ! i * r ! i + t ! i * t ! i + D) / (2 * t ! i);
              bNm1 = np_power b (N - 1);
              bN2 = bNm1 * bNm1
          in (r ! i + t ! i \<ge> 1 \<longrightarrow>
                Tsub ! i = t ! i / (t ! i + (1 - t ! i) * (N - 1)) \<and> Rsub ! i = 1 - Tsub ! i)
           \<and> (r ! i + t ! i < 1 \<longrightarrow>
                Rsub ! i = a * (bN2 - 1) / (a\<^sup>2 * bN2 - 1)
                \<and> Tsub ! i = bNm1 * (a\<^sup>2 - 1) / (a\<^sup>2 * bN2 - 1))
           \<and> (0 < b \<longrightarrow> bN2 = np_power b (2 * (N - 1))))
    \<and> length Rsub = length r \<and> length Tsub = length r
    \<and> (length nr = 2101 \<and> length kab = 2101 \<and> length kcar = 2101 \<and> length kbrown = 2101
         \<and> length kw = 2101 \<and> length km = 2101 \<and> length kant = 2101
         \<and> refl_trans_one_layer_arr alpha nr
              (prospectdcore_tau expi
                 (prospectdcore_kall N cab car cbrown cw cm ant kab kcar kbrown kw km kant))
            = (r, t, Ra, Ta, denom)
       \<longrightarrow> length r = 2101 \<and> length t = 2101
           \<and> prospectdcore expi N cab car cbrown cw cm ant nr kab kcar kbrown kw km kant alpha
             = (case prospectdcore_leaf r t Ra Ta Rsub Tsub of
                  (rf, tr) \<Rightarrow> Inr (arange 400 2501, rf, tr)))"
proof -
  have "0 < b \<Longrightarrow> np_power b (N - 1) * np_power b (N - 1) = np_power b (2 * (N - 1))" for b
    by (simp add: np_power_def powr_add [symmetric])
  with nth_prospectdcore_stokes [OF assms] length_prospectdcore_stokes [OF assms(1)]
  have branches: "(let D = sqrt ((1 + r ! i + t ! i) * (1 + r ! i - t ! i)
                         * (1 - r ! i + t ! i) * (1 - r ! i - t ! i));
              a = (1 + r ! i * r ! i - t ! i * t ! i + D) / (2 * r ! i);
              b = (1 - r ! i * r ! i + t ! i * t ! i + D) / (2 * t ! i);
              bNm1 = np_power b (N - 1);
              bN2 = bNm1 * bNm1
          in (r ! i + t ! i \<ge> 1 \<longrightarrow>
                Tsub ! i = t ! i / (t ! i + (1 - t ! i) * (N - 1)) \<and> Rsub ! i = 1 - Tsub ! i)
           \<and> (r ! i + t ! i < 1 \<longrightarrow>
                Rsub ! i = a * (bN2 - 1) / (a\<^sup>2 * bN2 - 1)
                \<and> Tsub ! i = bNm1 * (a\<^sup>2 - 1) / (a\<^sup>2 * bN2 - 1))
           \<and> (0 < b \<longrightarrow> bN2 = np_power b (2 * (N - 1))))
    \<and> length Rsub = length r \<and> length Tsub = length r"
    by (simp add: Let_def power2_eq_square)
  have link: "length r = 2101 \<and> length t = 2101
      \<and> prospectdcore expi N cab car cbrown cw cm ant nr kab kcar kbrown kw km kant alpha
        = (case prospectdcore_leaf r t Ra Ta Rsub Tsub of
             (rf, tr) \<Rightarrow> Inr (arange 400 2501, rf, tr))"
    if len: "length nr = 2101" "length kab = 2101" "length kcar = 2101" "length kbrown = 2101"
      "length kw = 2101" "length km = 2101" "length kant = 2101"
      and rt: "refl_trans_one_layer_arr alpha nr
              (prospectdcore_tau expi
                 (prospectdcore_kall N cab car cbrown cw cm ant kab kcar kbrown kw km kant))
            = (r, t, Ra, Ta, denom)"
  proof -
    from length_refl_trans_one_layer_arr [OF rt] len(1)
    have "length r = 2101" "length t = 2101"
      by simp_all
    moreover from prospectdcore_stages [OF len, of expi N cab car cbrown cw cm ant alpha] rt assms(1)
    have "prospectdcore expi N cab car cbrown cw cm ant nr kab kcar kbrown kw km kant alpha
        = (case prospectdcore_leaf r t Ra Ta Rsub Tsub of
             (rf, tr) \<Rightarrow> Inr (arange 400 2501, rf, tr))"
      by simp
    ultimately show ?thesis
      by simp
  qed
  from branches link show ?thesis
    by blast
qed

theorem prospectdcore_stokes_branches_witness:
  "length [1 / 2, 3 / 10 :: real] = length [1 / 2, 3 / 10 :: real]
   \<and> (0::nat) < length [1 / 2, 3 / 10 :: real] \<and> (1::nat) < length [1 / 2, 3 / 10 :: real]
   \<and> [1 / 2, 3 / 10 :: real] ! 0 + [1 / 2, 3 / 10] ! 0 \<ge> 1
   \<and> [1 / 2, 3 / 10 :: real] ! 1 + [1 / 2, 3 / 10] ! 1 < 1
   \<and> snd (prospectdcore_stokes 3 [1 / 2, 3 / 10] [1 / 2, 3 / 10]) ! 0 = 1 / 3
   \<and> fst (prospectdcore_stokes 3 [1 / 2, 3 / 10] [1 / 2, 3 / 10]) ! 0 = 2 / 3
   \<and> snd (prospectdcore_stokes 3 [1 / 2, 3 / 10] [1 / 2, 3 / 10]) ! 1 = 9 / 91
   \<and> fst (prospectdcore_stokes 3 [1 / 2, 3 / 10] [1 / 2, 3 / 10]) ! 1 = 30 / 91
   \<and> length (replicate 2101 (3 / 2 :: real)) = 2101
   \<and> length (2 # replicate 2100 (0 :: real)) = 2101
   \<and> length (replicate 2101 (0 :: real)) = 2101
   \<and> length (fst (snd layer_example)) = length (fst layer_example)
   \<and> (0::nat) < length (fst layer_example)
   \<and> length (fst layer_example) = 2101
   \<and> prospectdcore expi_example 3 1 0 0 0 0 0 (replicate 2101 (3 / 2))
        (2 # replicate 2100 0) (replicate 2101 0) (replicate 2101 0) (replicate 2101 0)
        (replicate 2101 0) (replicate 2101 0) 40
      = (case prospectdcore_leaf (fst layer_example) (fst (snd layer_example))
                (fst (snd (snd layer_example))) (fst (snd (snd (snd layer_example))))
                (fst (prospectdcore_stokes 3 (fst layer_example) (fst (snd layer_example))))
                (snd (prospectdcore_stokes 3 (fst layer_example) (fst (snd layer_example)))) of
           (rf, tr) \<Rightarrow> Inr (arange 400 2501, rf, tr))"
proof -
  let ?r = "[1 / 2, 3 / 10 :: real]"
  let ?s = "prospectdcore_stokes 3 ?r ?r"
  have s: "?s = (fst ?s, snd ?s)"
    by simp
  have l: "length ?r = length ?r"
    by simp
  have i: "(0::nat) < length ?r" "(1::nat) < length ?r"
    by simp_all
  have q: "sqrt (16 / 25) = 4 / 5"
    by (rule real_sqrt_unique) (simp_all add: power2_eq_square)
  note a = prospectdcore_stokes_branches [OF s l i(1), THEN conjunct1, unfolded Let_def]
  note b = prospectdcore_stokes_branches [OF s l i(2), THEN conjunct1, unfolded Let_def]
  have a': "snd ?s ! 0 = 1 / 3 \<and> fst ?s ! 0 = 2 / 3"
    using a by simp
  have b': "snd ?s ! 1 = 9 / 91 \<and> fst ?s ! 1 = 30 / 91"
    using b by (simp add: q np_power_def)
  let ?L = layer_example
  let ?S = "prospectdcore_stokes 3 (fst ?L) (fst (snd ?L))"
  have S: "?S = (fst ?S, snd ?S)"
    by simp
  have L: "refl_trans_one_layer_arr 40 (replicate 2101 (3 / 2))
       (prospectdcore_tau expi_example
          (prospectdcore_kall 3 1 0 0 0 0 0 (2 # replicate 2100 0) (replicate 2101 0)
             (replicate 2101 0) (replicate 2101 0) (replicate 2101 0) (replicate 2101 0)))
     = (fst ?L, fst (snd ?L), fst (snd (snd ?L)), fst (snd (snd (snd ?L))),
        snd (snd (snd (snd ?L))))"
    by (simp add: layer_example_def)
  have ll: "length (fst (snd ?L)) = length (fst ?L)" "(0::nat) < length (fst ?L)"
    using length_refl_trans_one_layer_arr [OF L] by simp_all
  have n: "length (replicate 2101 (3 / 2 :: real)) = 2101"
    "length (2 # replicate 2100 (0 :: real)) = 2101" "length (replicate 2101 (0 :: real)) = 2101"
    by simp_all
  note c = prospectdcore_stokes_branches [OF S ll, THEN conjunct2, THEN conjunct2,
      THEN conjunct2, rule_format, OF conjI [OF n(1) conjI [OF n(2) conjI [OF n(3)
        conjI [OF n(3) conjI [OF n(3) conjI [OF n(3) conjI [OF n(3) L]]]]]]]]
  from a' b' c ll n show ?thesis
    by simp
qed

lemma sin_deg2rad_90: "sin (deg2rad 90) = 1"
  by (simp add: deg2rad_def)

lemma calctav_b1_general_at_90:
  "sqrt (((sin (deg2rad 90))\<^sup>2 - (nr\<^sup>2 + 1) / 2)\<^sup>2 + (- ((nr\<^sup>2 - 1)\<^sup>2) / 4)) = 0"
proof -
  have "((1::real) - (nr\<^sup>2 + 1) / 2)\<^sup>2 + (- ((nr\<^sup>2 - 1)\<^sup>2) / 4) = 0"
    by (simp add: power2_eq_square field_simps)
  then show ?thesis
    by (simp add: sin_deg2rad_90)
qed

text \<open>
  C8.  \<open>calctav\<close> is the Stern and Allen closed form \<open>calctav_spec\<close> at \<open>sin alpha\<close>, the
  refractive index and \<open>b1\<close>, for every angle; \<open>b1\<close> is 0 at \<open>alpha = 90\<close> and
  \<open>sqrt ((sin\<^sup>2 alpha - (nr\<^sup>2 + 1) / 2)\<^sup>2 + k)\<close> with \<open>k = - (nr\<^sup>2 - 1)\<^sup>2 / 4\<close> at every other
  angle.  (In exact arithmetic the square root is 0 at 90 degrees as well, so the branch
  sets \<open>b1\<close> to its exact value.)
\<close>

theorem calctav_closed_form:
  "calctav alpha nr = calctav_spec (sin (deg2rad alpha)) nr (calctav_b1_spec alpha nr)
   \<and> calctav_b1_spec 90 nr = 0
   \<and> (alpha \<noteq> 90 \<longrightarrow>
        calctav_b1_spec alpha nr
          = sqrt (((sin (deg2rad alpha))\<^sup>2 - (nr\<^sup>2 + 1) / 2)\<^sup>2 + (- ((nr\<^sup>2 - 1)\<^sup>2) / 4)))
   \<and> sqrt (((sin (deg2rad 90))\<^sup>2 - (nr\<^sup>2 + 1) / 2)\<^sup>2 + (- ((nr\<^sup>2 - 1)\<^sup>2) / 4)) = 0"
proof (intro conjI impI)
  show "calctav alpha nr = calctav_spec (sin (deg2rad alpha)) nr (calctav_b1_spec alpha nr)"
  proof (cases "alpha = 90")
    case True
    then show ?thesis
      unfolding calctav_def calctav_spec_def calctav_b1_spec_def Let_def power2_eq_square
      by (simp only: mult_minus_left not_True_eq_False if_True if_False simp_thms)
  next
    case False
    then show ?thesis
      unfolding calctav_def calctav_spec_def calctav_b1_spec_def Let_def power2_eq_square
      by (simp only: mult_minus_left if_True if_False simp_thms)
  qed
next
  show "calctav_b1_spec 90 nr = 0"
    by (simp add: calctav_b1_spec_def)
next
  assume "alpha \<noteq> 90"
  then show "calctav_b1_spec alpha nr
      = sqrt (((sin (deg2rad alpha))\<^sup>2 - (nr\<^sup>2 + 1) / 2)\<^sup>2 + (- ((nr\<^sup>2 - 1)\<^sup>2) / 4))"
    by (simp only: calctav_b1_spec_def if_False)
next
  show "sqrt (((sin (deg2rad 90))\<^sup>2 - (nr\<^sup>2 + 1) / 2)\<^sup>2 + (- ((nr\<^sup>2 - 1)\<^sup>2) / 4)) = 0"
    by (rule calctav_b1_general_at_90)
qed


theorem calctav_closed_form_witness:
  "(40 :: real) \<noteq> 90
   \<and> calctav_b1_spec 40 (3 / 2)
       = sqrt (((sin (deg2rad 40))\<^sup>2 - ((3 / 2)\<^sup>2 + 1) / 2)\<^sup>2 + (- (((3 / 2)\<^sup>2 - 1)\<^sup>2) / 4))
   \<and> calctav 40 (3 / 2) = calctav_spec (sin (deg2rad 40)) (3 / 2) (calctav_b1_spec 40 (3 / 2))"
  using calctav_closed_form [of 40 "3 / 2"] by simp

subsection \<open>A single layer\<close>

text \<open>With \<open>N = 1\<close> the inner stack has \<open>b^(N-1) = 1\<close>, so \<open>Rsub\<close> is 0 and the reflectance
  of the leaf is \<open>Ra\<close> at every index; the transmittance is \<open>Ta\<close> at every index where
  \<open>Tsub\<close> is not the quotient \<open>0 / 0\<close>, that is where \<open>r + t >= 1\<close> or \<open>a\<^sup>2\<close> is not 1.\<close>

lemma refl_trans_one_layer_t0:
  "refl_trans_one_layer alpha nr tau = (r, t, Ra, Ta, denom) \<Longrightarrow> t = 0 \<Longrightarrow> Ta = 0"
  by (auto simp: refl_trans_one_layer_def Let_def)

lemma prospectdcore_single_layer:
  assumes len: "length nr = 2101" "length kab = 2101" "length kcar = 2101"
    "length kbrown = 2101" "length kw = 2101" "length km = 2101" "length kant = 2101"
    and i: "i < 2101"
    and rt: "refl_trans_one_layer_arr alpha nr
               (prospectdcore_tau expi
                 (prospectdcore_kall 1 cab car cbrown cw cm ant kab kcar kbrown kw km kant))
             = (r, t, Ra, Ta, denom)"
    and res: "prospectdcore expi 1 cab car cbrown cw cm ant nr kab kcar kbrown kw km kant alpha
             = Inr (wv, rf, tr)"
  defines "D \<equiv> sqrt ((1 + r ! i + t ! i) * (1 + r ! i - t ! i)
                       * (1 - r ! i + t ! i) * (1 - r ! i - t ! i))"
  defines "a \<equiv> (1 + r ! i * r ! i - t ! i * t ! i + D) / (2 * r ! i)"
  shows "rf ! i = Ra ! i"
    and "r ! i + t ! i \<ge> 1 \<or> a * a \<noteq> 1 \<Longrightarrow> tr ! i = Ta ! i"
proof -
  obtain Rsub Tsub where st: "prospectdcore_stokes 1 r t = (Rsub, Tsub)"
    by (cases "prospectdcore_stokes 1 r t")
  obtain rf' tr' where lf: "prospectdcore_leaf r t Ra Ta Rsub Tsub = (rf', tr')"
    by (cases "prospectdcore_leaf r t Ra Ta Rsub Tsub")
  from prospectdcore_stages [OF len, of expi 1 cab car cbrown cw cm ant alpha] rt st lf res
  have eq: "rf = rf'" "tr = tr'"
    by simp_all
  from length_refl_trans_one_layer_arr [OF rt] len(1)
  have l: "length r = 2101" "length t = 2101"
    by simp_all
  then have lt: "length t = length r" and ir: "i < length r"
    using i by simp_all
  have sc: "refl_trans_one_layer alpha (nr ! i)
      (prospectdcore_tau expi
         (prospectdcore_kall 1 cab car cbrown cw cm ant kab kcar kbrown kw km kant) ! i)
      = (r ! i, t ! i, Ra ! i, Ta ! i, denom ! i)"
    using nth_refl_trans_one_layer_arr [OF rt] i len(1) by simp
  then have t0: "t ! i = 0 \<Longrightarrow> Ta ! i = 0"
    by (rule refl_trans_one_layer_t0)
  have T: "Tsub ! i = (if r ! i + t ! i \<ge> 1 then t ! i / t ! i else (a * a - 1) / (a * a - 1))"
    using nth_prospectdcore_stokes(1) [OF st lt ir]
    by (simp add: np_power_def a_def D_def)
  have R: "Rsub ! i = (if r ! i + t ! i \<ge> 1 then 1 - Tsub ! i else 0)"
    using nth_prospectdcore_stokes(2) [OF st lt ir]
    by (simp add: np_power_def)
  from nth_prospectdcore_leaf [OF lf ir]
  have tr: "tr ! i = Ta ! i * Tsub ! i / (1 - Rsub ! i * r ! i)"
    and rf: "rf ! i = Ra ! i + Ta ! i * Rsub ! i * t ! i / (1 - Rsub ! i * r ! i)"
    by (simp_all add: eq)
  show "rf ! i = Ra ! i"
    using rf R T t0 by (cases "t ! i = 0") (simp_all split: if_splits)
  show "tr ! i = Ta ! i" if "r ! i + t ! i \<ge> 1 \<or> a * a \<noteq> 1"
    using that tr R T t0 by (cases "t ! i = 0") (auto split: if_splits)
qed

section \<open>Side effects\<close>

lemma prospectdcore_h_pure:
  assumes "nr < next_addr h" "kab < next_addr h" "kcar < next_addr h" "kbrown < next_addr h"
    "kw < next_addr h" "km < next_addr h" "kant < next_addr h"
    and "prospectdcore_h expi N cab car cbrown cw cm ant nr kab kcar kbrown kw km kant alpha h
      = (res, h')"
  shows "unchanged h h' \<and> fresh_result h h' res
    \<and> deref_result h' res
       = prospectdcore expi N cab car cbrown cw cm ant (cells h nr) (cells h kab) (cells h kcar)
           (cells h kbrown) (cells h kw) (cells h km) (cells h kant) alpha"
proof (cases "list_all (\<lambda>n_elems. n_elems = length (arange 400 2501))
    (map (\<lambda>spectrum. length (cells h spectrum)) [nr, kab, kcar, kbrown, kw, km, kant])")
  case False
  with assms(8) have "res = Inl (ValueError ''Leaf spectra don't have the right shape!'')" "h' = h"
    by (auto simp: prospectdcore_h_def Let_def)
  with False show ?thesis
    by (auto simp: unchanged_def fresh_result_def deref_result_def prospectdcore_def Let_def)
next
  case True
  from assms(8) [symmetric] True assms(1-7) show ?thesis
    by (simp add: prospectdcore_h_def prospectdcore_def Let_def alloc_def store_def
        refl_trans_one_layer_h_def deref_result_def fresh_result_def unchanged_def
        prospectdcore_tau_def prospectdcore_stokes_def case_prod_beta)
qed

lemma unchanged_refl: "unchanged h h"
  by (simp add: unchanged_def)

lemma unchanged_trans: "unchanged h h1 \<Longrightarrow> unchanged h1 h2 \<Longrightarrow> unchanged h h2"
  by (auto simp: unchanged_def)

lemma fresh_result_mono:
  "next_addr h \<le> next_addr h1 \<Longrightarrow> fresh_result h1 h' res \<Longrightarrow> fresh_result h h' res"
  by (auto simp: fresh_result_def split: sum.splits)

lemma allocated_if_none:
  "p < next_addr h \<Longrightarrow> allocated h v \<Longrightarrow> if_none p v < next_addr h"
  by (auto simp: allocated_def if_none_def split: option.splits)

lemma cells_if_none:
  "cells h (if_none p v) = if_none (cells h p) (map_option (cells h) v)"
  by (auto simp: if_none_def split: option.splits)

lemma run_prospect_h_pure:
  assumes T: "tables_allocated h A"
    and ov: "allocated h nr" "allocated h kab" "allocated h kcar" "allocated h kbrown"
      "allocated h kw" "allocated h km" "allocated h kant"
    and run: "run_prospect_h expi A n cab car cbrown cw cm ant v
                nr kab kcar kbrown kw km kant alpha h = (res, h')"
  shows "unchanged h h' \<and> fresh_result h h' res
    \<and> deref_result h' res
       = run_prospect expi (load_tables h A) n cab car cbrown cw cm ant v
           (map_option (cells h) nr) (map_option (cells h) kab) (map_option (cells h) kcar)
           (map_option (cells h) kbrown) (map_option (cells h) kw) (map_option (cells h) km)
           (map_option (cells h) kant) alpha"
proof -
  from T have t: "nr_5_at A < next_addr h" "kab_5_at A < next_addr h"
    "kcar_5_at A < next_addr h" "kbrown_5_at A < next_addr h" "kw_5_at A < next_addr h"
    "km_5_at A < next_addr h" "nr_d_at A < next_addr h" "kab_d_at A < next_addr h"
    "kcar_d_at A < next_addr h" "kant_d_at A < next_addr h" "kbrown_d_at A < next_addr h"
    "kw_d_at A < next_addr h" "km_d_at A < next_addr h"
    by (simp_all add: tables_allocated_def)
  consider (five) "v = ''5''" | (d) "v \<noteq> ''5''" "upper v = ''D''"
    | (other) "v \<noteq> ''5''" "upper v \<noteq> ''D''"
    by blast
  then show ?thesis
  proof cases
    case five
    define h1 where "h1 = snd (alloc (zeros_like (cells h (km_5_at A))) h)"
    have n1: "next_addr h1 = Suc (next_addr h)"
      and c1: "cells h1 = (cells h)(next_addr h := zeros_like (cells h (km_5_at A)))"
      by (simp_all add: h1_def alloc_def)
    have u1: "unchanged h h1"
      by (simp add: unchanged_def n1 c1)
    have same: "p < next_addr h \<Longrightarrow> cells h1 p = cells h p" for p
      by (simp add: c1)
    from run five have run1: "prospectdcore_h expi n cab car cbrown cw cm 0
        (if_none (nr_5_at A) nr) (if_none (kab_5_at A) kab) (if_none (kcar_5_at A) kcar)
        (if_none (kbrown_5_at A) kbrown) (if_none (kw_5_at A) kw) (if_none (km_5_at A) km)
        (next_addr h) alpha h1 = (res, h')"
      by (simp add: run_prospect_h_def h1_def alloc_def)
    have a: "if_none (nr_5_at A) nr < next_addr h" "if_none (kab_5_at A) kab < next_addr h"
      "if_none (kcar_5_at A) kcar < next_addr h" "if_none (kbrown_5_at A) kbrown < next_addr h"
      "if_none (kw_5_at A) kw < next_addr h" "if_none (km_5_at A) km < next_addr h"
      using t ov by (simp_all add: allocated_if_none)
    then have a1: "if_none (nr_5_at A) nr < next_addr h1" "if_none (kab_5_at A) kab < next_addr h1"
      "if_none (kcar_5_at A) kcar < next_addr h1" "if_none (kbrown_5_at A) kbrown < next_addr h1"
      "if_none (kw_5_at A) kw < next_addr h1" "if_none (km_5_at A) km < next_addr h1"
      "next_addr h < next_addr h1"
      by (simp_all add: n1)
    note p = prospectdcore_h_pure [OF a1 run1]
    from p u1 have "unchanged h h'"
      by (blast intro: unchanged_trans)
    moreover from p have "fresh_result h h' res"
      using fresh_result_mono [of h h1 h' res] by (simp add: n1)
    moreover from p have "deref_result h' res
       = run_prospect expi (load_tables h A) n cab car cbrown cw cm ant v
           (map_option (cells h) nr) (map_option (cells h) kab) (map_option (cells h) kcar)
           (map_option (cells h) kbrown) (map_option (cells h) kw) (map_option (cells h) km)
           (map_option (cells h) kant) alpha"
      using five a by (simp add: run_prospect_def same cells_if_none [symmetric] load_tables_def c1)
    ultimately show ?thesis
      by simp
  next
    case d
    from run d have run1: "prospectdcore_h expi n cab car cbrown cw cm ant
        (if_none (nr_d_at A) nr) (if_none (kab_d_at A) kab) (if_none (kcar_d_at A) kcar)
        (if_none (kbrown_d_at A) kbrown) (if_none (kw_d_at A) kw) (if_none (km_d_at A) km)
        (if_none (kant_d_at A) kant) alpha h = (res, h')"
      by (simp add: run_prospect_h_def)
    have a: "if_none (nr_d_at A) nr < next_addr h" "if_none (kab_d_at A) kab < next_addr h"
      "if_none (kcar_d_at A) kcar < next_addr h" "if_none (kbrown_d_at A) kbrown < next_addr h"
      "if_none (kw_d_at A) kw < next_addr h" "if_none (km_d_at A) km < next_addr h"
      "if_none (kant_d_at A) kant < next_addr h"
      using t ov by (simp_all add: allocated_if_none)
    note p = prospectdcore_h_pure [OF a run1]
    then show ?thesis
      using d by (simp add: run_prospect_def cells_if_none [symmetric] load_tables_def)
  next
    case other
    with run have "res = Inl (ValueError ''prospect_version can only be 5 or D!'')" "h' = h"
      by (simp_all add: run_prospect_h_def)
    with other show ?thesis
      by (simp add: run_prospect_def unchanged_refl fresh_result_def deref_result_def)
  qed
qed

lemma unchanged_allocated: "unchanged h h' \<Longrightarrow> allocated h v \<Longrightarrow> allocated h' v"
  by (auto simp: unchanged_def allocated_def split: option.splits)

lemma unchanged_tables_allocated:
  "unchanged h h' \<Longrightarrow> tables_allocated h A \<Longrightarrow> tables_allocated h' A"
  by (auto simp: unchanged_def tables_allocated_def)

lemma unchanged_map_option:
  "unchanged h h' \<Longrightarrow> allocated h v \<Longrightarrow> map_option (cells h') v = map_option (cells h) v"
  by (auto simp: unchanged_def allocated_def split: option.splits)

lemma unchanged_load_tables:
  "unchanged h h' \<Longrightarrow> tables_allocated h A \<Longrightarrow> load_tables h' A = load_tables h A"
  by (simp add: unchanged_def tables_allocated_def load_tables_def)

text \<open>
  C10.  A call of \<open>run_prospect\<close> on a store where the tables and the supplied overrides
  are allocated leaves every allocated array as it was (the tables, the overrides and
  anything else: the indexed assignments reach arrays allocated by the call only), the
  reflectance and transmittance it returns are two new arrays, and their contents are
  the value of the function \<open>run_prospect\<close> of the contents of the inputs.  A second call
  with the same arguments, on the store the first one left, returns the same contents.
\<close>

theorem run_prospect_side_effect_free:
  assumes T: "tables_allocated h A"
    and ov: "allocated h nr" "allocated h kab" "allocated h kcar" "allocated h kbrown"
      "allocated h kw" "allocated h km" "allocated h kant"
    and run: "run_prospect_h expi A n cab car cbrown cw cm ant v
                nr kab kcar kbrown kw km kant alpha h = (res, h')"
    and again: "run_prospect_h expi A n cab car cbrown cw cm ant v
                nr kab kcar kbrown kw km kant alpha h' = (res', h'')"
  shows "unchanged h h' \<and> fresh_result h h' res
    \<and> deref_result h' res
       = run_prospect expi (load_tables h A) n cab car cbrown cw cm ant v
           (map_option (cells h) nr) (map_option (cells h) kab) (map_option (cells h) kcar)
           (map_option (cells h) kbrown) (map_option (cells h) kw) (map_option (cells h) km)
           (map_option (cells h) kant) alpha
    \<and> unchanged h' h'' \<and> fresh_result h' h'' res'
    \<and> deref_result h'' res' = deref_result h' res"
proof -
  note first = run_prospect_h_pure [OF T ov run]
  then have u: "unchanged h h'"
    by simp
  note second = run_prospect_h_pure [OF unchanged_tables_allocated [OF u T]
      ov [THEN unchanged_allocated [OF u]] again]
  from first second show ?thesis
    by (simp add: unchanged_map_option [OF u] ov unchanged_load_tables [OF u T])
qed

theorem run_prospect_side_effect_free_witness:
  "tables_allocated heap_example table_addrs_example
   \<and> allocated heap_example None \<and> allocated heap_example (Some 1)
   \<and> unchanged heap_example
       (snd (run_prospect_h expi_example table_addrs_example 1 0 0 0 0 0 0 ''D''
               None (Some 1) None None None None None 40 heap_example))
   \<and> fresh_result heap_example
       (snd (run_prospect_h expi_example table_addrs_example 1 0 0 0 0 0 0 ''D''
               None (Some 1) None None None None None 40 heap_example))
       (fst (run_prospect_h expi_example table_addrs_example 1 0 0 0 0 0 0 ''D''
               None (Some 1) None None None None None 40 heap_example))
   \<and> deref_result
       (snd (run_prospect_h expi_example table_addrs_example 1 0 0 0 0 0 0 ''D''
               None (Some 1) None None None None None 40
               (snd (run_prospect_h expi_example table_addrs_example 1 0 0 0 0 0 0 ''D''
                       None (Some 1) None None None None None 40 heap_example))))
       (fst (run_prospect_h expi_example table_addrs_example 1 0 0 0 0 0 0 ''D''
               None (Some 1) None None None None None 40
               (snd (run_prospect_h expi_example table_addrs_example 1 0 0 0 0 0 0 ''D''
                       None (Some 1) None None None None None 40 heap_example))))
     = deref_result
       (snd (run_prospect_h expi_example table_addrs_example 1 0 0 0 0 0 0 ''D''
               None (Some 1) None None None None None 40 heap_example))
       (fst (run_prospect_h expi_example table_addrs_example 1 0 0 0 0 0 0 ''D''
               None (Some 1) None None None None None 40 heap_example))"
proof -
  let ?run = "run_prospect_h expi_example table_addrs_example 1 0 0 0 0 0 0 ''D''
               None (Some 1) None None None None None 40"
  have T: "tables_allocated heap_example table_addrs_example"
    by (simp add: tables_allocated_def heap_example_def table_addrs_example_def)
  have n: "allocated heap_example None"
    by (simp add: allocated_def)
  have s: "allocated heap_example (Some 1)"
    by (simp add: allocated_def heap_example_def)
  have r: "?run heap_example = (fst (?run heap_example), snd (?run heap_example))"
    "?run (snd (?run heap_example))
       = (fst (?run (snd (?run heap_example))), snd (?run (snd (?run heap_example))))"
    by simp_all
  from run_prospect_side_effect_free [OF T n s n n n n n r] T n s show ?thesis
    by simp
qed

end
